theory Spec2Isabelle
  imports Main
begin

section \<open>The job posting form: data model\<close>

text \<open>
  The component \<open>JobPostingForm.tsx\<close> holds its field values in a react-hook-form
  store, validates them on submission with the zod schema \<open>formSchema\<close>, and keeps one
  further piece of React state, \<open>showCustomAge\<close>. The embedding follows the source
  top to bottom: the schema, the default values, \<open>onSubmit\<close>, and the change handlers
  of the widgets.

  A \<open>Date\<close> is modelled as an integer count of milliseconds of local wall-clock time;
  \<open>undefined\<close> is \<open>None\<close>. A number held by the age inputs is an \<open>int\<close>.
\<close>

datatype ageRequirement = Any | Age_18_35 | Custom

type_synonym date = int

record FormValues =
  jobTitle :: string
  company :: string
  location :: string
  jobDescription :: string
  salary :: "string option"
  ageRequirement :: ageRequirement
  ageFrom :: "int option"
  ageTo :: "int option"
  benefits :: "string list"
  applicationDeadline :: "date option"
  viberNumber :: string

section \<open>The regular expression of the Viber number\<close>

text \<open>
  The pattern \<open>/^09\d{7,9}$/\<close> is a sequence of single-character atoms, each with a
  repetition range, anchored at both ends of the input (no \<open>m\<close> flag, so \<open>$\<close> is the
  end of the input only). \<open>\d\<close> is an ASCII digit. \<open>rx_test\<close> is a backtracking
  matcher for such anchored sequences.
\<close>

datatype atom = Lit char | Digit

type_synonym rx_item = "atom \<times> nat \<times> nat"

definition is_digit :: "char \<Rightarrow> bool" where
  "is_digit c = (c \<in> set ''0123456789'')"

fun atom_ok :: "atom \<Rightarrow> char \<Rightarrow> bool" where
  "atom_ok (Lit a) c = (c = a)"
| "atom_ok Digit c = is_digit c"

fun rx_test :: "rx_item list \<Rightarrow> string \<Rightarrow> bool" where
  "rx_test [] s = (s = [])"
| "rx_test ((a, lo, hi) # ps) s =
     ((lo = 0 \<and> rx_test ps s) \<or>
      (case s of
         [] \<Rightarrow> False
       | c # cs \<Rightarrow> 0 < hi \<and> atom_ok a c \<and> rx_test ((a, lo - 1, hi - 1) # ps) cs))"

definition viber_regex :: "rx_item list" where
  "viber_regex = [(Lit CHR ''0'', 1, 1), (Lit CHR ''9'', 1, 1), (Digit, 7, 9)]"

section \<open>The schema\<close>

text \<open>
  zod parses every key of an object schema and collects the issues of all of them. A
  value of the wrong type (here only a missing \<open>applicationDeadline\<close>, since every
  other key holds a value of its type) aborts its key; a failed check (\<open>min\<close>,
  \<open>max\<close>, \<open>regex\<close>) adds its issue and marks the key dirty. An object with an
  aborted key is aborted, and a refinement of an aborted object is not run; a refinement
  of a dirty object is.
\<close>

datatype status = Valid | Dirty | Aborted

type_synonym issue = "string \<times> string"

type_synonym parsed = "status \<times> issue list"

definition z_string_min :: "nat \<Rightarrow> string \<Rightarrow> string \<Rightarrow> string \<Rightarrow> parsed" where
  "z_string_min n msg path v =
     (if length v < n then (Dirty, [(path, msg)]) else (Valid, []))"

definition z_string_regex :: "rx_item list \<Rightarrow> string \<Rightarrow> string \<Rightarrow> string \<Rightarrow> parsed" where
  "z_string_regex rx msg path v =
     (if rx_test rx v then (Valid, []) else (Dirty, [(path, msg)]))"

text \<open>
  \<open>z.number().min(18).max(100).optional()\<close>, the schema of both age fields:
  \<open>undefined\<close> is accepted; a number runs the two checks in this order, each adding
  its own issue with zod's default message.
\<close>

definition age_schema :: "string \<Rightarrow> int option \<Rightarrow> parsed" where
  "age_schema path v =
     (case v of
        None \<Rightarrow> (Valid, [])
      | Some n \<Rightarrow>
          (let too_small =
                 (if n < 18 then [(path, ''Number must be greater than or equal to 18'')] else []);
               too_big =
                 (if n > 100 then [(path, ''Number must be less than or equal to 100'')] else [])
           in (if too_small @ too_big = [] then Valid else Dirty, too_small @ too_big)))"

definition z_date :: "string \<Rightarrow> string \<Rightarrow> date option \<Rightarrow> parsed" where
  "z_date required_error path v =
     (case v of None \<Rightarrow> (Aborted, [(path, required_error)]) | Some d \<Rightarrow> (Valid, []))"

fun merge_status :: "status \<Rightarrow> status \<Rightarrow> status" where
  "merge_status Aborted _ = Aborted"
| "merge_status _ Aborted = Aborted"
| "merge_status Dirty _ = Dirty"
| "merge_status _ Dirty = Dirty"
| "merge_status Valid Valid = Valid"

definition merge_object :: "parsed list \<Rightarrow> parsed" where
  "merge_object ps = (foldl merge_status Valid (map fst ps), concat (map snd ps))"

text \<open>
  The keys in the order of the schema. \<open>salary\<close> (an optional string), \<open>ageRequirement\<close>
  (one of the three enum values) and \<open>benefits\<close> (an array of strings) accept every
  value of their type.
\<close>

definition object_parse :: "FormValues \<Rightarrow> parsed" where
  "object_parse d = merge_object
     [ z_string_min 3 ''Job title must be at least 3 characters'' ''jobTitle'' (jobTitle d),
       z_string_min 2 ''Company name must be at least 2 characters'' ''company'' (company d),
       z_string_min 2 ''Location is required'' ''location'' (location d),
       z_string_min 20 ''Job description must be at least 20 characters'' ''jobDescription''
         (jobDescription d),
       age_schema ''ageFrom'' (ageFrom d),
       age_schema ''ageTo'' (ageTo d),
       z_date ''Application deadline is required'' ''applicationDeadline'' (applicationDeadline d),
       z_string_regex viber_regex ''Viber number must start with 09 and be valid'' ''viberNumber''
         (viberNumber d) ]"

definition age_refinement :: "FormValues \<Rightarrow> bool" where
  "age_refinement d =
     (if ageRequirement d = Custom
      then (case (ageFrom d, ageTo d) of
              (Some lo, Some hi) \<Rightarrow> lo \<le> hi
            | _ \<Rightarrow> False)
      else True)"

definition refine_message :: string where
  "refine_message = ''Invalid age range. 'From' age must be less than or equal to 'To' age''"

definition formSchema :: "FormValues \<Rightarrow> issue list" where
  "formSchema d =
     (case object_parse d of
        (Aborted, iss) \<Rightarrow> iss
      | (_, iss) \<Rightarrow> if age_refinement d then iss else iss @ [(''ageTo'', refine_message)])"

section \<open>The resolver\<close>

text \<open>
  \<open>zodResolver\<close> catches the schema's error and turns its issues into the form's error
  object, keyed by the issue's path; the first issue of a path is the one kept. With no
  issue it returns the parsed values.
\<close>

type_synonym errors = "string \<rightharpoonup> string"

fun parseErrorSchema :: "issue list \<Rightarrow> errors \<Rightarrow> errors" where
  "parseErrorSchema [] errs = errs"
| "parseErrorSchema ((p, m) # rest) errs =
     parseErrorSchema rest (if errs p = None then errs(p \<mapsto> m) else errs)"

definition zodResolver :: "FormValues \<Rightarrow> errors + FormValues" where
  "zodResolver d =
     (case formSchema d of
        [] \<Rightarrow> Inr d
      | iss \<Rightarrow> Inl (parseErrorSchema iss Map.empty))"

section \<open>The component\<close>

definition benefitsOptions :: "(string \<times> string) list" where
  "benefitsOptions =
     [ (''no-resume'', ''No Resume Needed (Walk-in Interview)''),
       (''no-experience'', ''No Experience Required''),
       (''seniors-welcome'', ''Seniors Welcome''),
       (''training-provided'', ''Training Provided''),
       (''flexible-hours'', ''Flexible Working Hours''),
       (''immediate-start'', ''Immediate Start''),
       (''students-ok'', ''Students OK'') ]"

text \<open>
  The state of a mounted component: the values of the form store and the React state
  \<open>showCustomAge\<close>. The keys that \<open>defaultValues\<close> leaves out are \<open>undefined\<close>.
\<close>

record form_state =
  formValues :: FormValues
  showCustomAge :: bool

definition defaultValues :: FormValues where
  "defaultValues =
     \<lparr> jobTitle = '''', company = '''', location = '''', jobDescription = '''',
       salary = Some '''', ageRequirement = Any, ageFrom = None, ageTo = None,
       benefits = [], applicationDeadline = None, viberNumber = '''' \<rparr>"

definition initial_state :: form_state where
  "initial_state = \<lparr> formValues = defaultValues, showCustomAge = False \<rparr>"

subsection \<open>Submission\<close>

text \<open>
  What a submission does to the world outside the form store is recorded as a list of
  effects, in the order of the calls. \<open>onSuccess\<close> is the optional callback of the props.
\<close>

datatype 'c effect = ConsoleLog FormValues | Toast string string | Call 'c

definition onSubmit :: "'c option \<Rightarrow> FormValues \<Rightarrow> form_state \<Rightarrow> form_state \<times> 'c effect list" where
  "onSubmit onSuccess data s =
     (s\<lparr>formValues := defaultValues\<rparr>,
      [ConsoleLog data,
       Toast ''Job Posted Successfully!'' ''Your job posting has been submitted.'']
      @ (case onSuccess of None \<Rightarrow> [] | Some f \<Rightarrow> [Call f]))"

text \<open>
  \<open>form.handleSubmit(onSubmit)\<close>: run the resolver; with errors, publish them and stop;
  without, call \<open>onSubmit\<close> with the values. The result is the new state, the errors
  shown, and the effects.
\<close>

definition handleSubmit :: "'c option \<Rightarrow> form_state \<Rightarrow> form_state \<times> errors \<times> 'c effect list" where
  "handleSubmit onSuccess s =
     (case zodResolver (formValues s) of
        Inl errs \<Rightarrow> (s, errs, [])
      | Inr data \<Rightarrow> (case onSubmit onSuccess data s of (s', effs) \<Rightarrow> (s', Map.empty, effs)))"

subsection \<open>Change handlers\<close>

definition ageRequirement_onValueChange :: "ageRequirement \<Rightarrow> form_state \<Rightarrow> form_state" where
  "ageRequirement_onValueChange v s =
     s\<lparr> formValues := (formValues s)\<lparr>ageRequirement := v\<rparr>,
        showCustomAge := (v = Custom) \<rparr>"

text \<open>
  The age inputs store \<open>parseInt(e.target.value) || undefined\<close>. The argument is the
  result of \<open>parseInt\<close>, \<open>None\<close> for \<open>NaN\<close>; \<open>NaN\<close> and \<open>0\<close> are falsy.
\<close>

definition or_undefined :: "int option \<Rightarrow> int option" where
  "or_undefined p = (case p of None \<Rightarrow> None | Some n \<Rightarrow> if n = 0 then None else Some n)"

definition ageFrom_onChange :: "int option \<Rightarrow> form_state \<Rightarrow> form_state" where
  "ageFrom_onChange parsed s =
     s\<lparr>formValues := (formValues s)\<lparr>ageFrom := or_undefined parsed\<rparr>\<rparr>"

definition ageTo_onChange :: "int option \<Rightarrow> form_state \<Rightarrow> form_state" where
  "ageTo_onChange parsed s =
     s\<lparr>formValues := (formValues s)\<lparr>ageTo := or_undefined parsed\<rparr>\<rparr>"

text \<open>
  A benefit checkbox is checked when the list includes its id; a click reports the
  opposite of what is shown to \<open>onCheckedChange\<close>.
\<close>

definition benefit_checked :: "string \<Rightarrow> string list \<Rightarrow> bool" where
  "benefit_checked bid v = (bid \<in> set v)"

definition benefit_onCheckedChange :: "string \<Rightarrow> bool \<Rightarrow> string list \<Rightarrow> string list" where
  "benefit_onCheckedChange bid checked v =
     (if checked then v @ [bid] else filter (\<lambda>x. x \<noteq> bid) v)"

definition benefit_click :: "string \<Rightarrow> string list \<Rightarrow> string list" where
  "benefit_click bid v = benefit_onCheckedChange bid (\<not> benefit_checked bid v) v"

subsection \<open>The date picker\<close>

text \<open>
  \<open>maxDate\<close> is the time of the render moved 60 calendar days on (\<open>setDate\<close> keeps the
  local time of day). The picker's \<open>disabled\<close> predicate compares a day of the
  calendar, a date at local midnight, with the current time and with \<open>maxDate\<close>.
  Local time is taken to run without a change of offset over the window.
\<close>

definition day_ms :: int where
  "day_ms = 86400000"

definition day_start :: "int \<Rightarrow> date" where
  "day_start n = n * day_ms"

definition maxDate :: "date \<Rightarrow> date" where
  "maxDate now = now + 60 * day_ms"

definition calendar_disabled :: "date \<Rightarrow> date \<Rightarrow> date \<Rightarrow> bool" where
  "calendar_disabled rendered now d = (d < now \<or> d > maxDate rendered)"

subsection \<open>Events\<close>

text \<open>
  What a user can do to a mounted form. The age inputs exist only while
  \<open>showCustomAge\<close> holds, a checkbox only for an id of \<open>benefitsOptions\<close>, and the
  picker reports a day only when it is not disabled (or \<open>undefined\<close>, when the selected
  day is clicked again). \<open>SelectDate rendered now d\<close> carries the two readings of the
  clock the picker compares with.
\<close>

datatype event =
    ChangeJobTitle string
  | ChangeCompany string
  | ChangeLocation string
  | ChangeJobDescription string
  | ChangeSalary string
  | ChooseAgeRequirement ageRequirement
  | ChangeAgeFrom "int option"
  | ChangeAgeTo "int option"
  | ClickBenefit string
  | SelectDate date date "date option"
  | ChangeViberNumber string
  | SubmitForm

fun step :: "'c option \<Rightarrow> event \<Rightarrow> form_state \<Rightarrow> form_state" where
  "step cb (ChangeJobTitle v) s = s\<lparr>formValues := (formValues s)\<lparr>jobTitle := v\<rparr>\<rparr>"
| "step cb (ChangeCompany v) s = s\<lparr>formValues := (formValues s)\<lparr>company := v\<rparr>\<rparr>"
| "step cb (ChangeLocation v) s = s\<lparr>formValues := (formValues s)\<lparr>location := v\<rparr>\<rparr>"
| "step cb (ChangeJobDescription v) s =
     s\<lparr>formValues := (formValues s)\<lparr>jobDescription := v\<rparr>\<rparr>"
| "step cb (ChangeSalary v) s = s\<lparr>formValues := (formValues s)\<lparr>salary := Some v\<rparr>\<rparr>"
| "step cb (ChooseAgeRequirement v) s = ageRequirement_onValueChange v s"
| "step cb (ChangeAgeFrom p) s = (if showCustomAge s then ageFrom_onChange p s else s)"
| "step cb (ChangeAgeTo p) s = (if showCustomAge s then ageTo_onChange p s else s)"
| "step cb (ClickBenefit bid) s =
     (if bid \<in> set (map fst benefitsOptions)
      then s\<lparr>formValues :=
              (formValues s)\<lparr>benefits := benefit_click bid (benefits (formValues s))\<rparr>\<rparr>
      else s)"
| "step cb (SelectDate rendered now sel) s =
     (case sel of
        None \<Rightarrow> s\<lparr>formValues := (formValues s)\<lparr>applicationDeadline := None\<rparr>\<rparr>
      | Some d \<Rightarrow>
          if calendar_disabled rendered now d then s
          else s\<lparr>formValues := (formValues s)\<lparr>applicationDeadline := Some d\<rparr>\<rparr>)"
| "step cb (ChangeViberNumber v) s = s\<lparr>formValues := (formValues s)\<lparr>viberNumber := v\<rparr>\<rparr>"
| "step cb SubmitForm s = fst (handleSubmit cb s)"

fun run :: "'c option \<Rightarrow> event list \<Rightarrow> form_state \<Rightarrow> form_state" where
  "run cb [] s = s"
| "run cb (e # es) s = run cb es (step cb e s)"

inductive reachable :: "'c option \<Rightarrow> form_state \<Rightarrow> bool" for cb :: "'c option" where
  mount: "reachable cb initial_state"
| after: "reachable cb s \<Longrightarrow> reachable cb (step cb e s)"

fun calls :: "'c effect list \<Rightarrow> 'c list" where
  "calls [] = []"
| "calls (Call f # es) = f # calls es"
| "calls (_ # es) = calls es"

section \<open>The rules as the specification words them\<close>

text \<open>
  The deadline window of the specification, on day numbers: strictly after today and at
  most 60 days after it.
\<close>

definition spec_deadline_window :: "int \<Rightarrow> int \<Rightarrow> bool" where
  "spec_deadline_window today d = (today < d \<and> d \<le> today + 60)"

text \<open>
  The Viber number of the specification: the literal prefix \<open>09\<close>, then 7 to 9 more
  digits and nothing else.
\<close>

definition spec_viber_ok :: "string \<Rightarrow> bool" where
  "spec_viber_ok s =
     (take 2 s = ''09'' \<and> 7 \<le> length (drop 2 s) \<and> length (drop 2 s) \<le> 9 \<and>
      list_all is_digit (drop 2 s))"

text \<open>The range rule of one age field, and the rules of the fields other than the two ages.\<close>

definition age_in_range :: "int option \<Rightarrow> bool" where
  "age_in_range v = (case v of None \<Rightarrow> True | Some n \<Rightarrow> 18 \<le> n \<and> n \<le> 100)"

definition other_fields_ok :: "FormValues \<Rightarrow> bool" where
  "other_fields_ok d =
     (3 \<le> length (jobTitle d) \<and> 2 \<le> length (company d) \<and> 2 \<le> length (location d) \<and>
      20 \<le> length (jobDescription d) \<and> applicationDeadline d \<noteq> None \<and>
      spec_viber_ok (viberNumber d))"

definition custom_range_ok :: "FormValues \<Rightarrow> bool" where
  "custom_range_ok d =
     (\<exists>lo hi. ageFrom d = Some lo \<and> ageTo d = Some hi \<and> lo \<le> hi)"

definition field_names :: "string list" where
  "field_names =
     [''jobTitle'', ''company'', ''location'', ''jobDescription'', ''salary'', ''ageRequirement'',
      ''ageFrom'', ''ageTo'', ''benefits'', ''applicationDeadline'', ''viberNumber'']"

section \<open>A filled-in form\<close>

text \<open>
  A draft that satisfies every rule, and the events that enter it into a freshly mounted
  form at ten in the morning of day 20000.
\<close>

definition sample_draft :: FormValues where
  "sample_draft =
     \<lparr> jobTitle = ''Sales Representative'', company = ''Golden Tea'',
       location = ''Yangon, Myanmar'',
       jobDescription = ''Serve customers and keep the shop tidy.'',
       salary = Some ''300,000 MMK'', ageRequirement = Any, ageFrom = None, ageTo = None,
       benefits = [''training-provided''],
       applicationDeadline = Some (day_start 20010), viberNumber = ''0912345678'' \<rparr>"

definition sample_now :: date where
  "sample_now = day_start 20000 + 36000000"

definition sample_events :: "event list" where
  "sample_events =
     [ ChangeJobTitle ''Sales Representative'', ChangeCompany ''Golden Tea'',
       ChangeLocation ''Yangon, Myanmar'',
       ChangeJobDescription ''Serve customers and keep the shop tidy.'',
       ChangeSalary ''300,000 MMK'', ClickBenefit ''training-provided'',
       SelectDate sample_now sample_now (Some (day_start 20010)),
       ChangeViberNumber ''0912345678'' ]"

text \<open>
  The same form with a custom age range of 20 to 30 entered, then submitted.
\<close>

definition custom_submission_events :: "event list" where
  "custom_submission_events =
     sample_events @
     [ChooseAgeRequirement Custom, ChangeAgeFrom (Some 20), ChangeAgeTo (Some 30), SubmitForm]"


section \<open>The matcher and the Viber number\<close>

text \<open>
  An item of the pattern consumes a prefix of the input whose length lies in the item's
  range and whose characters all satisfy its atom; the rest of the pattern matches the
  rest of the input.
\<close>

lemma rx_test_item:
  "rx_test ((a, lo, hi) # ps) s \<longleftrightarrow>
     (\<exists>pre post. s = pre @ post \<and> lo \<le> length pre \<and> length pre \<le> hi \<and>
        list_all (atom_ok a) pre \<and> rx_test ps post)"
proof (induction s arbitrary: lo hi)
  case Nil
  show ?case by auto
next
  case (Cons c cs)
  show ?case (is "?L = ?R")
  proof
    assume ?L
    then consider (skip) "lo = 0" "rx_test ps (c # cs)"
      | (eat) "0 < hi" "atom_ok a c" "rx_test ((a, lo - 1, hi - 1) # ps) cs"
      by auto
    then show ?R
    proof cases
      case skip
      then have "c # cs = [] @ (c # cs) \<and> lo \<le> length ([]::string) \<and> length ([]::string) \<le> hi \<and>
        list_all (atom_ok a) [] \<and> rx_test ps (c # cs)" by simp
      then show ?thesis by blast
    next
      case eat
      from eat(3) Cons.IH obtain pre post where
        p: "cs = pre @ post" "lo - 1 \<le> length pre" "length pre \<le> hi - 1"
           "list_all (atom_ok a) pre" "rx_test ps post"
        by blast
      from p eat(1,2) have "c # cs = (c # pre) @ post \<and> lo \<le> length (c # pre) \<and>
        length (c # pre) \<le> hi \<and> list_all (atom_ok a) (c # pre) \<and> rx_test ps post"
        by auto
      then show ?thesis by blast
    qed
  next
    assume ?R
    then obtain pre post where
      p: "c # cs = pre @ post" "lo \<le> length pre" "length pre \<le> hi"
         "list_all (atom_ok a) pre" "rx_test ps post"
      by blast
    show ?L
    proof (cases pre)
      case Nil
      with p show ?thesis by simp
    next
      case (Cons c' pre')
      with p have c: "c' = c" "cs = pre' @ post" by auto
      from p Cons have "lo - 1 \<le> length pre'" "length pre' \<le> hi - 1" "list_all (atom_ok a) pre'"
        by auto
      with c p(5) Cons.IH have "rx_test ((a, lo - 1, hi - 1) # ps) cs" by blast
      moreover from p Cons c have "0 < hi" "atom_ok a c" by auto
      ultimately show ?thesis by simp
    qed
  qed
qed

lemma rx_test_lit1:
  "rx_test ((Lit a, 1, 1) # ps) s \<longleftrightarrow> (\<exists>post. s = a # post \<and> rx_test ps post)"
proof
  assume "rx_test ((Lit a, 1, 1) # ps) s"
  then obtain pre post where
    p: "s = pre @ post" "1 \<le> length pre" "length pre \<le> 1"
       "list_all (atom_ok (Lit a)) pre" "rx_test ps post"
    unfolding rx_test_item by blast
  from p(2,3) obtain x where "pre = [x]" by (cases pre) auto
  with p show "\<exists>post. s = a # post \<and> rx_test ps post" by simp
next
  assume "\<exists>post. s = a # post \<and> rx_test ps post"
  then obtain post where "s = a # post" "rx_test ps post" by blast
  then have "s = [a] @ post \<and> 1 \<le> length [a] \<and> length [a] \<le> 1 \<and>
    list_all (atom_ok (Lit a)) [a] \<and> rx_test ps post" by simp
  then show "rx_test ((Lit a, 1, 1) # ps) s"
    unfolding rx_test_item by blast
qed

lemma rx_test_end:
  "rx_test [(a, lo, hi)] s \<longleftrightarrow> lo \<le> length s \<and> length s \<le> hi \<and> list_all (atom_ok a) s"
  unfolding rx_test_item by auto

lemma viber_regex_iff:
  "rx_test viber_regex s \<longleftrightarrow>
     (\<exists>ds. s = CHR ''0'' # CHR ''9'' # ds \<and> 7 \<le> length ds \<and> length ds \<le> 9 \<and> list_all is_digit ds)"
proof -
  have d: "atom_ok Digit = is_digit" by (rule ext) simp
  show ?thesis
    unfolding viber_regex_def rx_test_lit1 rx_test_end d by auto
qed

lemma viber_regex_spec: "rx_test viber_regex s = spec_viber_ok s"
proof -
  have "spec_viber_ok s \<longleftrightarrow>
     (\<exists>ds. s = CHR ''0'' # CHR ''9'' # ds \<and> 7 \<le> length ds \<and> length ds \<le> 9 \<and> list_all is_digit ds)"
  proof (cases s)
    case Nil
    then show ?thesis by (simp add: spec_viber_ok_def)
  next
    case (Cons a t)
    show ?thesis
    proof (cases t)
      case Nil
      with Cons show ?thesis by (simp add: spec_viber_ok_def)
    next
      case (Cons b ds)
      with \<open>s = a # t\<close> show ?thesis by (auto simp add: spec_viber_ok_def)
    qed
  qed
  then show ?thesis by (simp add: viber_regex_iff)
qed

lemma sample_draft_viber: "rx_test viber_regex ''0912345678''"
  by (simp add: viber_regex_def is_digit_def)

section \<open>The issues of the schema\<close>

lemma merge_status_Aborted: "merge_status a b = Aborted \<longleftrightarrow> a = Aborted \<or> b = Aborted"
  by (cases a; cases b) simp_all

lemma z_string_min_fst: "fst (z_string_min n msg p v) \<noteq> Aborted"
  by (simp add: z_string_min_def)

lemma z_string_regex_fst: "fst (z_string_regex rx msg p v) \<noteq> Aborted"
  by (simp add: z_string_regex_def)

lemma age_schema_fst: "fst (age_schema p v) \<noteq> Aborted"
  by (simp add: age_schema_def Let_def split: option.split)

lemma z_date_fst: "fst (z_date msg p v) = Aborted \<longleftrightarrow> v = None"
  by (simp add: z_date_def split: option.split)

text \<open>The object is aborted exactly when the deadline is missing.\<close>

lemma object_parse_aborted: "fst (object_parse d) = Aborted \<longleftrightarrow> applicationDeadline d = None"
  by (simp add: object_parse_def merge_object_def merge_status_Aborted
      z_string_min_fst z_string_regex_fst age_schema_fst z_date_fst)

lemma formSchema_unfold:
  "formSchema d =
     (if applicationDeadline d = None \<or> age_refinement d then snd (object_parse d)
      else snd (object_parse d) @ [(''ageTo'', refine_message)])"
proof (cases "object_parse d")
  case (Pair st iss)
  with object_parse_aborted [of d] show ?thesis
    by (cases st) (simp_all add: formSchema_def)
qed

lemma object_parse_issues:
  "snd (object_parse d) =
     (if length (jobTitle d) < 3 then [(''jobTitle'', ''Job title must be at least 3 characters'')] else []) @
     (if length (company d) < 2 then [(''company'', ''Company name must be at least 2 characters'')] else []) @
     (if length (location d) < 2 then [(''location'', ''Location is required'')] else []) @
     (if length (jobDescription d) < 20
      then [(''jobDescription'', ''Job description must be at least 20 characters'')] else []) @
     snd (age_schema ''ageFrom'' (ageFrom d)) @
     snd (age_schema ''ageTo'' (ageTo d)) @
     (if applicationDeadline d = None
      then [(''applicationDeadline'', ''Application deadline is required'')] else []) @
     (if rx_test viber_regex (viberNumber d) then []
      else [(''viberNumber'', ''Viber number must start with 09 and be valid'')])"
  by (simp add: object_parse_def merge_object_def z_string_min_def z_string_regex_def z_date_def
      split: option.split)

lemma age_schema_issues_empty: "snd (age_schema p v) = [] \<longleftrightarrow> age_in_range v"
  by (auto simp add: age_schema_def age_in_range_def Let_def split: option.split)

lemma age_schema_issues_mem:
  "(q, m) \<in> set (snd (age_schema p v)) \<Longrightarrow> q = p \<and> m \<noteq> [] \<and> \<not> age_in_range v"
  by (auto simp add: age_schema_def age_in_range_def Let_def split: option.splits if_splits)

lemma object_parse_empty:
  "snd (object_parse d) = [] \<longleftrightarrow>
     other_fields_ok d \<and> age_in_range (ageFrom d) \<and> age_in_range (ageTo d)"
  unfolding object_parse_issues
  by (auto simp add: age_schema_issues_empty other_fields_ok_def viber_regex_spec)

text \<open>
  The schema accepts a draft exactly when every field rule holds and, for a custom age
  requirement, both ages are present and in order.
\<close>

lemma formSchema_empty_iff:
  "formSchema d = [] \<longleftrightarrow>
     other_fields_ok d \<and> age_in_range (ageFrom d) \<and> age_in_range (ageTo d) \<and>
     (ageRequirement d = Custom \<longrightarrow> custom_range_ok d)"
proof -
  have r: "age_refinement d \<longleftrightarrow> (ageRequirement d = Custom \<longrightarrow> custom_range_ok d)"
    by (auto simp add: age_refinement_def custom_range_ok_def split: option.splits)
  show ?thesis
    unfolding formSchema_unfold r
    by (auto simp add: object_parse_empty other_fields_ok_def)
qed

lemma mem_if1: "x \<in> (if c then {p} else {}) \<longleftrightarrow> c \<and> x = p"
  by simp

lemma mem_if2: "x \<in> (if c then {} else {p}) \<longleftrightarrow> \<not> c \<and> x = p"
  by simp

lemma object_parse_paths:
  "fst ` set (snd (object_parse d)) =
     (if length (jobTitle d) < 3 then {''jobTitle''} else {}) \<union>
     ((if length (company d) < 2 then {''company''} else {}) \<union>
     ((if length (location d) < 2 then {''location''} else {}) \<union>
     ((if length (jobDescription d) < 20 then {''jobDescription''} else {}) \<union>
     ((if age_in_range (ageFrom d) then {} else {''ageFrom''}) \<union>
     ((if age_in_range (ageTo d) then {} else {''ageTo''}) \<union>
     ((if applicationDeadline d = None then {''applicationDeadline''} else {}) \<union>
     (if spec_viber_ok (viberNumber d) then {} else {''viberNumber''})))))))"
proof -
  have n: "fst ` set (snd (age_schema p v)) = (if age_in_range v then {} else {p})" for p v
    by (auto simp add: age_schema_def age_in_range_def Let_def image_Un split: option.splits)
  have i: "fst ` set (if c then [(p, m)] else []) = (if c then {p} else {})"
    for c and p m :: string
    by simp
  have i': "fst ` set (if c then [] else [(p, m)]) = (if c then {} else {p})"
    for c and p m :: string
    by simp
  show ?thesis
    unfolding object_parse_issues
    by (simp only: set_append image_Un i i' n viber_regex_spec Un_assoc)
qed

lemma formSchema_paths:
  "fst ` set (formSchema d) =
     fst ` set (snd (object_parse d)) \<union>
     (if applicationDeadline d = None \<or> age_refinement d then {} else {''ageTo''})"
  unfolding formSchema_unfold by simp

lemma formSchema_issue:
  assumes "(p, m) \<in> set (formSchema d)"
  shows "p \<in> set field_names \<and> m \<noteq> []"
proof -
  from assms have "(p, m) \<in> set (snd (object_parse d)) \<or> (p, m) = (''ageTo'', refine_message)"
    by (auto simp add: formSchema_unfold split: if_splits)
  then show ?thesis
  proof
    assume "(p, m) \<in> set (snd (object_parse d))"
    then show ?thesis
      unfolding object_parse_issues
      by (auto simp add: field_names_def dest!: age_schema_issues_mem split: if_splits)
  next
    assume "(p, m) = (''ageTo'', refine_message)"
    then show ?thesis by (simp add: field_names_def refine_message_def)
  qed
qed

lemma sample_draft_valid: "formSchema sample_draft = []"
  by (simp add: formSchema_unfold object_parse_issues sample_draft_def sample_draft_viber
      age_schema_def age_refinement_def)

lemma custom_draft_valid:
  "formSchema (sample_draft\<lparr>ageRequirement := Custom, ageFrom := Some 20, ageTo := Some 30\<rparr>) = []"
  by (simp add: formSchema_unfold object_parse_issues sample_draft_def sample_draft_viber
      age_schema_def age_refinement_def)

section \<open>The error object\<close>

text \<open>The first issue of a path is the one the error object keeps.\<close>

lemma parseErrorSchema_map_of: "parseErrorSchema iss e = map_of iss ++ e"
proof (induction iss arbitrary: e)
  case Nil
  show ?case by simp
next
  case (Cons a iss)
  obtain p m where a: "a = (p, m)" by (cases a)
  have "parseErrorSchema ((p, m) # iss) e x = (map_of ((p, m) # iss) ++ e) x" for x
    by (simp add: Cons.IH map_add_def split: option.splits)
  then show ?case
    unfolding a by (rule ext)
qed

lemma parseErrorSchema_dom: "dom (parseErrorSchema iss Map.empty) = fst ` set iss"
  by (simp add: parseErrorSchema_map_of dom_map_of_conv_image_fst)

lemma parseErrorSchema_Some:
  "parseErrorSchema iss Map.empty p = Some m \<Longrightarrow> (p, m) \<in> set iss"
  by (simp add: parseErrorSchema_map_of map_of_SomeD)

section \<open>Submission and runs of events\<close>

lemma handleSubmit_valid:
  "formSchema (formValues s) = [] \<Longrightarrow>
     handleSubmit cb s =
       (s\<lparr>formValues := defaultValues\<rparr>, Map.empty,
        [ConsoleLog (formValues s),
         Toast ''Job Posted Successfully!'' ''Your job posting has been submitted.'']
        @ (case cb of None \<Rightarrow> [] | Some f \<Rightarrow> [Call f]))"
  by (simp add: handleSubmit_def zodResolver_def onSubmit_def)

lemma handleSubmit_invalid:
  "formSchema (formValues s) \<noteq> [] \<Longrightarrow>
     handleSubmit cb s = (s, parseErrorSchema (formSchema (formValues s)) Map.empty, [])"
  by (simp add: handleSubmit_def zodResolver_def split: list.split)

lemma run_append: "run cb (es @ fs) s = run cb fs (run cb es s)"
  by (induction es arbitrary: s) simp_all

lemma reachable_run: "reachable cb s \<Longrightarrow> reachable cb (run cb es s)"
  by (induction es arbitrary: s) (simp_all add: reachable.after)

lemma run_sample_events:
  "run cb sample_events initial_state = \<lparr> formValues = sample_draft, showCustomAge = False \<rparr>"
  by (simp add: sample_events_def initial_state_def defaultValues_def sample_draft_def
      benefitsOptions_def benefit_click_def benefit_checked_def benefit_onCheckedChange_def
      calendar_disabled_def maxDate_def sample_now_def day_start_def day_ms_def)

section \<open>The application deadline\<close>

text \<open>
  Claim C1, as amended. The schema asks only that \<open>applicationDeadline\<close> be present: a
  present deadline never carries an issue, a missing one carries the required-error, and
  the issues of a draft do not depend on which date the deadline is. The window of the
  specification is kept by the date picker, which compares a day with two readings of
  the clock: the time of the look-up, and \<open>maxDate\<close>, taken when the component was
  rendered. Looked up at a time of day after midnight, the picker rejects the day \<open>n\<close>
  exactly when \<open>n\<close> is not strictly after today and at most 60 days after the day of
  the render. When the component was rendered today, that is the window of the
  specification: today is rejected, today + 60 is offered, today + 61 is rejected. When
  it was rendered on an earlier day, every day the picker offers still lies in the window
  of the specification, but the last days of the window are rejected.
\<close>

theorem applicationDeadline_window:
  "(applicationDeadline d \<noteq> None \<longrightarrow> ''applicationDeadline'' \<notin> fst ` set (formSchema d)) \<and>
   (applicationDeadline d = None \<longrightarrow>
      (''applicationDeadline'', ''Application deadline is required'') \<in> set (formSchema d)) \<and>
   formSchema (d\<lparr>applicationDeadline := Some x\<rparr>) = formSchema (d\<lparr>applicationDeadline := Some y\<rparr>) \<and>
   (0 \<le> t0 \<and> t0 < day_ms \<and> 0 < t \<and> t < day_ms \<longrightarrow>
      calendar_disabled (day_start today + t0) (day_start today + t) (day_start n) =
        (\<not> spec_deadline_window today n)) \<and>
   (0 \<le> t0 \<and> t0 < day_ms \<and> 0 < t \<and> t < day_ms \<longrightarrow>
      calendar_disabled (day_start rendered_day + t0) (day_start today + t) (day_start n) =
        (\<not> (today < n \<and> n \<le> rendered_day + 60))) \<and>
   (0 \<le> t0 \<and> t0 < day_ms \<and> 0 < t \<and> t < day_ms \<and> rendered_day \<le> today \<and>
    \<not> calendar_disabled (day_start rendered_day + t0) (day_start today + t) (day_start n) \<longrightarrow>
      spec_deadline_window today n)"
proof -
  have a: "applicationDeadline d \<noteq> None \<longrightarrow> ''applicationDeadline'' \<notin> fst ` set (formSchema d)"
    unfolding formSchema_paths object_parse_paths
    by (simp only: Un_iff mem_if1 mem_if2) simp
  have b: "applicationDeadline d = None \<longrightarrow>
      (''applicationDeadline'', ''Application deadline is required'') \<in> set (formSchema d)"
    by (simp add: formSchema_unfold object_parse_issues)
  have c: "formSchema (d\<lparr>applicationDeadline := Some x\<rparr>) = formSchema (d\<lparr>applicationDeadline := Some y\<rparr>)"
    by (simp add: formSchema_unfold object_parse_issues age_refinement_def)
  have g: "calendar_disabled (day_start r + t0) (day_start today + t) (day_start n) =
        (\<not> (today < n \<and> n \<le> r + 60))"
    if "0 \<le> t0" "t0 < day_ms" "0 < t" "t < day_ms" for r
    using that
    unfolding calendar_disabled_def maxDate_def day_start_def day_ms_def
    by arith
  have e: "0 \<le> t0 \<and> t0 < day_ms \<and> 0 < t \<and> t < day_ms \<longrightarrow>
      calendar_disabled (day_start today + t0) (day_start today + t) (day_start n) =
        (\<not> spec_deadline_window today n)"
    using g [of today] by (simp add: spec_deadline_window_def)
  have f: "0 \<le> t0 \<and> t0 < day_ms \<and> 0 < t \<and> t < day_ms \<longrightarrow>
      calendar_disabled (day_start rendered_day + t0) (day_start today + t) (day_start n) =
        (\<not> (today < n \<and> n \<le> rendered_day + 60))"
    using g [of rendered_day] by simp
  have h: "0 \<le> t0 \<and> t0 < day_ms \<and> 0 < t \<and> t < day_ms \<and> rendered_day \<le> today \<and>
    \<not> calendar_disabled (day_start rendered_day + t0) (day_start today + t) (day_start n) \<longrightarrow>
      spec_deadline_window today n"
    using g [of rendered_day] by (auto simp add: spec_deadline_window_def)
  from a b c e f h show ?thesis by blast
qed

text \<open>
  At ten in the morning of day 20000, the day of the render, the picker rejects day
  20000, offers days 20001 and 20060 and rejects day 20061. Looked up at one in the
  morning of day 20001 with the same render, it still offers day 20060 and rejects day
  20061, the sixtieth day after that look-up.
\<close>

theorem applicationDeadline_window_witness:
  "(0::int) \<le> 36000000 \<and> (36000000::int) < day_ms \<and>
   (0::int) < 3600000 \<and> (3600000::int) < day_ms \<and> (20000::int) \<le> 20001 \<and>
   applicationDeadline sample_draft \<noteq> None \<and>
   ''applicationDeadline'' \<notin> fst ` set (formSchema sample_draft) \<and>
   applicationDeadline defaultValues = None \<and>
   (''applicationDeadline'', ''Application deadline is required'') \<in> set (formSchema defaultValues) \<and>
   calendar_disabled sample_now sample_now (day_start 20000) \<and>
   \<not> calendar_disabled sample_now sample_now (day_start 20001) \<and>
   \<not> calendar_disabled sample_now sample_now (day_start 20060) \<and>
   calendar_disabled sample_now sample_now (day_start 20061) \<and>
   \<not> calendar_disabled sample_now (day_start 20001 + 3600000) (day_start 20060) \<and>
   spec_deadline_window 20001 20060 \<and>
   calendar_disabled sample_now (day_start 20001 + 3600000) (day_start 20061) \<and>
   spec_deadline_window 20001 20061"
  using
    applicationDeadline_window [where d = sample_draft and x = 0 and y = 0
      and ?t0.0 = 36000000 and t = 36000000 and today = 20000 and n = 20000
      and rendered_day = 20000]
    applicationDeadline_window [where d = defaultValues and x = 0 and y = 0
      and ?t0.0 = 36000000 and t = 36000000 and today = 20000 and n = 20001
      and rendered_day = 20000]
    applicationDeadline_window [where d = defaultValues and x = 0 and y = 0
      and ?t0.0 = 36000000 and t = 36000000 and today = 20000 and n = 20060
      and rendered_day = 20000]
    applicationDeadline_window [where d = defaultValues and x = 0 and y = 0
      and ?t0.0 = 36000000 and t = 36000000 and today = 20000 and n = 20061
      and rendered_day = 20000]
    applicationDeadline_window [where d = defaultValues and x = 0 and y = 0
      and ?t0.0 = 36000000 and t = 3600000 and today = 20001 and n = 20060
      and rendered_day = 20000]
    applicationDeadline_window [where d = defaultValues and x = 0 and y = 0
      and ?t0.0 = 36000000 and t = 3600000 and today = 20001 and n = 20061
      and rendered_day = 20000]
  by (simp add: sample_now_def day_ms_def spec_deadline_window_def sample_draft_def defaultValues_def)

text \<open>
  Claim C1 as worded fails: with today the day 20000, the schema accepts the filled-in
  draft with its deadline on day 20000 itself and on day 20061, both outside the window.
\<close>

theorem applicationDeadline_window_counterexample:
  "formSchema (sample_draft\<lparr>applicationDeadline := Some (day_start 20000)\<rparr>) = [] \<and>
   \<not> spec_deadline_window 20000 20000 \<and>
   formSchema (sample_draft\<lparr>applicationDeadline := Some (day_start 20061)\<rparr>) = [] \<and>
   \<not> spec_deadline_window 20000 20061"
  by (simp add: formSchema_unfold object_parse_issues sample_draft_def sample_draft_viber
      age_schema_def age_refinement_def spec_deadline_window_def)

section \<open>Visibility of the age range\<close>

text \<open>
  Every event but a submission keeps \<open>showCustomAge\<close> equal to "the age requirement is
  custom", and so does a submission that fails or that starts from another requirement.
\<close>

lemma showCustomAge_tracks_selection:
  assumes "showCustomAge s = (ageRequirement (formValues s) = Custom)" and "e \<noteq> SubmitForm"
  shows "showCustomAge (step cb e s) = (ageRequirement (formValues (step cb e s)) = Custom)"
  using assms
  by (cases e)
    (simp_all add: ageRequirement_onValueChange_def ageFrom_onChange_def ageTo_onChange_def
      split: option.split)

lemma showCustomAge_tracks_other_submissions:
  assumes "showCustomAge s = (ageRequirement (formValues s) = Custom)"
    and "ageRequirement (formValues s) \<noteq> Custom \<or> formSchema (formValues s) \<noteq> []"
  shows "showCustomAge (step cb SubmitForm s) =
    (ageRequirement (formValues (step cb SubmitForm s)) = Custom)"
proof (cases "formSchema (formValues s) = []")
  case True
  with assms show ?thesis
    by (simp add: handleSubmit_valid defaultValues_def)
next
  case False
  with assms show ?thesis
    by (simp add: handleSubmit_invalid)
qed

text \<open>
  Claim C2 fails on the code at a successful submission of a custom age range: the reset
  puts the age requirement back to "any", and \<open>showCustomAge\<close> stays true. The state
  after the events of \<open>custom_submission_events\<close> is reachable and shows the age range
  while the requirement is "any".
\<close>

theorem showCustomAge_after_custom_submission:
  "reachable (None :: unit option)
     (run (None :: unit option) custom_submission_events initial_state) \<and>
   ageRequirement (formValues (run (None :: unit option) custom_submission_events initial_state))
     = Any \<and>
   showCustomAge (run (None :: unit option) custom_submission_events initial_state)"
proof -
  let ?s = "\<lparr> formValues =
                sample_draft\<lparr>ageRequirement := Custom, ageFrom := Some 20, ageTo := Some 30\<rparr>,
              showCustomAge = True \<rparr>"
  have "run (None :: unit option) custom_submission_events initial_state =
      step (None :: unit option) SubmitForm ?s"
    by (simp add: custom_submission_events_def run_append run_sample_events
        ageRequirement_onValueChange_def ageFrom_onChange_def ageTo_onChange_def or_undefined_def)
  also have "\<dots> = \<lparr> formValues = defaultValues, showCustomAge = True \<rparr>"
    using custom_draft_valid by (simp add: handleSubmit_valid)
  finally have r: "run (None :: unit option) custom_submission_events initial_state =
      \<lparr> formValues = defaultValues, showCustomAge = True \<rparr>" .
  have "reachable (None :: unit option)
      (run (None :: unit option) custom_submission_events initial_state)"
    by (rule reachable_run [OF reachable.mount])
  then show ?thesis
    by (simp add: r defaultValues_def)
qed

section \<open>The age fields in validation\<close>

text \<open>
  Claim C3, as amended. For a draft whose age requirement is "any" or "18-35" and whose
  other fields satisfy their rules, validation succeeds exactly when each of \<open>ageFrom\<close>
  and \<open>ageTo\<close> is absent or lies in 18..100: whether they are present, and their order,
  is ignored, their range is not.
\<close>

theorem non_custom_age_fields_range_checked:
  assumes "ageRequirement d \<noteq> Custom" and "other_fields_ok d"
  shows "(formSchema d = []) = (age_in_range (ageFrom d) \<and> age_in_range (ageTo d))"
  using assms by (simp add: formSchema_empty_iff)

theorem non_custom_age_fields_range_checked_witness:
  "ageRequirement sample_draft \<noteq> Custom \<and> other_fields_ok sample_draft \<and>
   formSchema (sample_draft\<lparr>ageFrom := Some 40, ageTo := Some 25\<rparr>) = [] \<and>
   formSchema (sample_draft\<lparr>ageTo := Some 101\<rparr>) \<noteq> []"
proof -
  have v: "spec_viber_ok ''0912345678''"
    by (simp add: spec_viber_ok_def is_digit_def)
  have a: "ageRequirement (sample_draft\<lparr>ageFrom := Some 40, ageTo := Some 25\<rparr>) \<noteq> Custom"
    "other_fields_ok (sample_draft\<lparr>ageFrom := Some 40, ageTo := Some 25\<rparr>)"
    "ageRequirement (sample_draft\<lparr>ageTo := Some 101\<rparr>) \<noteq> Custom"
    "other_fields_ok (sample_draft\<lparr>ageTo := Some 101\<rparr>)"
    "ageRequirement sample_draft \<noteq> Custom" "other_fields_ok sample_draft"
    by (simp_all add: sample_draft_def other_fields_ok_def v)
  show ?thesis
    using non_custom_age_fields_range_checked [OF a(1,2)]
      non_custom_age_fields_range_checked [OF a(3,4)] a(5,6)
    by (simp add: age_in_range_def)
qed

text \<open>
  Claim C3 as worded fails: the filled-in draft, age requirement "any", with the stale
  \<open>ageFrom = 5\<close> is rejected, the issue being on \<open>ageFrom\<close>.
\<close>

theorem non_custom_age_fields_counterexample:
  "ageRequirement (sample_draft\<lparr>ageFrom := Some 5\<rparr>) = Any \<and>
   other_fields_ok (sample_draft\<lparr>ageFrom := Some 5\<rparr>) \<and>
   formSchema (sample_draft\<lparr>ageFrom := Some 5\<rparr>) =
     [(''ageFrom'', ''Number must be greater than or equal to 18'')]"
proof -
  have v: "spec_viber_ok ''0912345678''"
    by (simp add: spec_viber_ok_def is_digit_def)
  show ?thesis
    by (simp add: formSchema_unfold object_parse_issues sample_draft_def sample_draft_viber
      age_schema_def age_refinement_def other_fields_ok_def v)
qed

text \<open>
  Claim C4, as amended. For a draft with a custom age requirement that lacks \<open>ageFrom\<close>
  or \<open>ageTo\<close> or has them out of order, validation fails; when the deadline is present,
  so that the refinement runs, its issue is attached to \<open>ageTo\<close> whichever
  sub-condition failed, \<open>ageTo\<close> has an entry in the error object, and that entry is the
  refinement's message unless \<open>ageTo\<close> already broke its own range rule.
\<close>

theorem custom_age_range_error:
  assumes "ageRequirement d = Custom" and "\<not> custom_range_ok d"
  shows "formSchema d \<noteq> [] \<and>
    (applicationDeadline d \<noteq> None \<longrightarrow>
       (''ageTo'', refine_message) \<in> set (formSchema d) \<and>
       ''ageTo'' \<in> dom (parseErrorSchema (formSchema d) Map.empty) \<and>
       (age_in_range (ageTo d) \<longrightarrow>
          parseErrorSchema (formSchema d) Map.empty ''ageTo'' = Some refine_message))"
proof -
  from assms have nr: "\<not> age_refinement d"
    by (auto simp add: age_refinement_def custom_range_ok_def split: option.splits)
  from assms have a: "formSchema d \<noteq> []"
    by (simp add: formSchema_empty_iff)
  have b: "(''ageTo'', refine_message) \<in> set (formSchema d)" if "applicationDeadline d \<noteq> None"
    using that nr by (auto simp add: formSchema_unfold)
  have c: "''ageTo'' \<in> dom (parseErrorSchema (formSchema d) Map.empty)"
    if "applicationDeadline d \<noteq> None"
    using b [OF that] unfolding parseErrorSchema_dom by force
  have e: "parseErrorSchema (formSchema d) Map.empty ''ageTo'' = Some refine_message"
    if "applicationDeadline d \<noteq> None" "age_in_range (ageTo d)"
  proof -
    from that have "''ageTo'' \<notin> fst ` set (snd (object_parse d))"
      unfolding object_parse_paths by (simp only: Un_iff mem_if1 mem_if2) simp
    then have "map_of (snd (object_parse d)) ''ageTo'' = None"
      by (simp add: map_of_eq_None_iff)
    with that(1) nr show ?thesis
      by (auto simp add: parseErrorSchema_map_of formSchema_unfold map_add_def)
  qed
  from a b c e show ?thesis by blast
qed

theorem custom_age_range_error_witness:
  "ageRequirement (sample_draft\<lparr>ageRequirement := Custom, ageFrom := Some 40, ageTo := Some 25\<rparr>)
     = Custom \<and>
   \<not> custom_range_ok (sample_draft\<lparr>ageRequirement := Custom, ageFrom := Some 40, ageTo := Some 25\<rparr>) \<and>
   parseErrorSchema
     (formSchema (sample_draft\<lparr>ageRequirement := Custom, ageFrom := Some 40, ageTo := Some 25\<rparr>))
     Map.empty ''ageTo'' = Some refine_message"
proof -
  let ?d = "sample_draft\<lparr>ageRequirement := Custom, ageFrom := Some 40, ageTo := Some 25\<rparr>"
  have h: "ageRequirement ?d = Custom" "\<not> custom_range_ok ?d"
    by (simp_all add: custom_range_ok_def)
  from custom_age_range_error [OF h] h show ?thesis
    by (simp add: sample_draft_def age_in_range_def)
qed

text \<open>
  Claim C4 as worded fails: with a custom age requirement, no ages and no deadline, the
  only issue is the missing deadline, and \<open>ageTo\<close> has no entry in the error object.
\<close>

theorem custom_age_range_error_counterexample:
  "ageRequirement (sample_draft\<lparr>ageRequirement := Custom, applicationDeadline := None\<rparr>) = Custom \<and>
   ageFrom (sample_draft\<lparr>ageRequirement := Custom, applicationDeadline := None\<rparr>) = None \<and>
   ageTo (sample_draft\<lparr>ageRequirement := Custom, applicationDeadline := None\<rparr>) = None \<and>
   formSchema (sample_draft\<lparr>ageRequirement := Custom, applicationDeadline := None\<rparr>) =
     [(''applicationDeadline'', ''Application deadline is required'')] \<and>
   parseErrorSchema (formSchema (sample_draft\<lparr>ageRequirement := Custom, applicationDeadline := None\<rparr>))
     Map.empty ''ageTo'' = None"
  by (simp add: formSchema_unfold object_parse_issues sample_draft_def sample_draft_viber
      age_schema_def)

section \<open>Submission\<close>

text \<open>
  Claim C5. Submitting a draft that the schema accepts leaves the form with the default
  values, which are the values it was mounted with, shows no error, and calls the
  callback of the props exactly once when there is one (and nothing when there is none).
\<close>

theorem submit_valid_resets_and_calls_back:
  assumes "formSchema (formValues s) = []"
  shows "formValues (fst (handleSubmit cb s)) = defaultValues \<and>
    formValues (fst (handleSubmit cb s)) = formValues initial_state \<and>
    fst (snd (handleSubmit cb s)) = Map.empty \<and>
    calls (snd (snd (handleSubmit cb s))) = (case cb of None \<Rightarrow> [] | Some f \<Rightarrow> [f])"
  using assms by (simp add: handleSubmit_valid initial_state_def split: option.split)

theorem submit_valid_resets_and_calls_back_witness:
  "formSchema (formValues \<lparr> formValues = sample_draft, showCustomAge = False \<rparr>) = [] \<and>
   formValues (fst (handleSubmit (Some (7::nat)) \<lparr> formValues = sample_draft, showCustomAge = False \<rparr>))
     = defaultValues \<and>
   calls (snd (snd (handleSubmit (Some (7::nat)) \<lparr> formValues = sample_draft, showCustomAge = False \<rparr>)))
     = [7]"
proof -
  have h: "formSchema (formValues \<lparr> formValues = sample_draft, showCustomAge = False \<rparr>) = []"
    by (simp add: sample_draft_valid)
  from submit_valid_resets_and_calls_back [OF h, of "Some (7::nat)"] h show ?thesis
    by simp
qed

text \<open>
  Claim C6. Submitting a draft that the schema rejects returns normally: the resolver
  yields an error object, the state of the form is unchanged, nothing is logged, shown or
  called back, and the error object has an entry for exactly the paths of the issues,
  at least one, each a field name with a non-empty message.
\<close>

theorem submit_invalid_reports_errors:
  assumes "formSchema (formValues s) \<noteq> []"
  shows "zodResolver (formValues s) = Inl (parseErrorSchema (formSchema (formValues s)) Map.empty) \<and>
    handleSubmit cb s = (s, parseErrorSchema (formSchema (formValues s)) Map.empty, []) \<and>
    calls (snd (snd (handleSubmit cb s))) = [] \<and>
    dom (fst (snd (handleSubmit cb s))) = fst ` set (formSchema (formValues s)) \<and>
    dom (fst (snd (handleSubmit cb s))) \<noteq> {} \<and>
    dom (fst (snd (handleSubmit cb s))) \<subseteq> set field_names \<and>
    (\<forall>p m. fst (snd (handleSubmit cb s)) p = Some m \<longrightarrow> m \<noteq> [])"
proof -
  let ?iss = "formSchema (formValues s)"
  let ?errs = "parseErrorSchema ?iss Map.empty"
  have z: "zodResolver (formValues s) = Inl ?errs"
    using assms by (simp add: zodResolver_def split: list.split)
  have h: "handleSubmit cb s = (s, ?errs, [])"
    using assms by (rule handleSubmit_invalid)
  have d: "dom ?errs = fst ` set ?iss"
    by (rule parseErrorSchema_dom)
  have ne: "dom ?errs \<noteq> {}"
    using assms unfolding d by simp
  have sub: "dom ?errs \<subseteq> set field_names"
    unfolding d using formSchema_issue by fastforce
  have msg: "\<forall>p m. ?errs p = Some m \<longrightarrow> m \<noteq> []"
    using parseErrorSchema_Some formSchema_issue by blast
  from z h d ne sub msg show ?thesis by simp
qed

theorem submit_invalid_reports_errors_witness:
  "formSchema (formValues initial_state) \<noteq> [] \<and>
   fst (handleSubmit (Some (7::nat)) initial_state) = initial_state \<and>
   snd (snd (handleSubmit (Some (7::nat)) initial_state)) = [] \<and>
   fst (snd (handleSubmit (Some (7::nat)) initial_state)) ''jobTitle'' =
     Some ''Job title must be at least 3 characters''"
proof -
  have h: "formSchema (formValues initial_state) \<noteq> []"
    by (simp add: formSchema_empty_iff initial_state_def defaultValues_def other_fields_ok_def)
  from submit_invalid_reports_errors [OF h, of "Some (7::nat)"] h show ?thesis
    by (simp add: parseErrorSchema_map_of formSchema_unfold object_parse_issues
        initial_state_def defaultValues_def)
qed

section \<open>The benefits\<close>

text \<open>
  Claim C7. Clicking the checkbox of a benefit twice in succession leaves the benefits
  with their original contents as a set, for every list of benefits and every id; so do
  two such clicks on the form.
\<close>

theorem benefit_click_twice:
  "set (benefit_click b (benefit_click b v)) = set v \<and>
   set (benefits (formValues (run cb [ClickBenefit b, ClickBenefit b] s))) =
     set (benefits (formValues s))"
proof -
  have a: "set (benefit_click b (benefit_click b v)) = set v" for v
    by (auto simp add: benefit_click_def benefit_checked_def benefit_onCheckedChange_def)
  show ?thesis
    by (simp add: a)
qed

lemma benefit_click_distinct: "distinct v \<Longrightarrow> distinct (benefit_click b v)"
  by (simp add: benefit_click_def benefit_checked_def benefit_onCheckedChange_def)

lemma step_benefits_distinct:
  "distinct (benefits (formValues s)) \<Longrightarrow> distinct (benefits (formValues (step cb e s)))"
proof (cases e)
  case SubmitForm
  assume "distinct (benefits (formValues s))"
  then show ?thesis
    unfolding SubmitForm
    by (cases "formSchema (formValues s) = []")
      (simp_all add: handleSubmit_valid handleSubmit_invalid defaultValues_def)
qed (simp_all add: benefit_click_distinct ageRequirement_onValueChange_def ageFrom_onChange_def
      ageTo_onChange_def split: option.split)

lemma reachable_benefits_distinct: "reachable cb s \<Longrightarrow> distinct (benefits (formValues s))"
  by (induction rule: reachable.induct)
    (simp_all add: initial_state_def defaultValues_def step_benefits_distinct)

text \<open>
  Claim C8. The benefits start empty. A click on a benefit that is absent appends it, and
  a click on one that is present removes it: as sets, insertion and removal. The adding
  branch of the handler leaves the set of a list that already has the id as it is; a
  click never takes that branch for such a list, so a click keeps a list free of
  duplicates, and the benefits of every reachable state have none.
\<close>

theorem benefits_set_semantics:
  "benefits (formValues initial_state) = [] \<and>
   (b \<notin> set v \<longrightarrow> benefit_click b v = v @ [b] \<and> set (benefit_click b v) = insert b (set v)) \<and>
   (b \<in> set v \<longrightarrow>
      benefit_click b v = filter (\<lambda>x. x \<noteq> b) v \<and> set (benefit_click b v) = set v - {b}) \<and>
   (b \<in> set v \<longrightarrow> set (benefit_onCheckedChange b True v) = set v) \<and>
   (distinct v \<longrightarrow> distinct (benefit_click b v)) \<and>
   (reachable cb s \<longrightarrow> distinct (benefits (formValues s)))"
proof -
  have a: "benefits (formValues initial_state) = []"
    by (simp add: initial_state_def defaultValues_def)
  have c: "b \<notin> set v \<longrightarrow> benefit_click b v = v @ [b] \<and> set (benefit_click b v) = insert b (set v)"
    "b \<in> set v \<longrightarrow>
      benefit_click b v = filter (\<lambda>x. x \<noteq> b) v \<and> set (benefit_click b v) = set v - {b}"
    "b \<in> set v \<longrightarrow> set (benefit_onCheckedChange b True v) = set v"
    by (auto simp add: benefit_click_def benefit_checked_def benefit_onCheckedChange_def)
  from a c benefit_click_distinct [of v b] reachable_benefits_distinct [of cb s]
  show ?thesis by blast
qed

theorem benefits_set_semantics_witness:
  "''no-resume'' \<notin> set [''students-ok''] \<and>
   set (benefit_click ''no-resume'' [''students-ok'']) = {''no-resume'', ''students-ok''} \<and>
   ''students-ok'' \<in> set [''students-ok''] \<and>
   set (benefit_click ''students-ok'' [''students-ok'']) = {} \<and>
   reachable (None :: unit option)
     (step (None :: unit option) (ClickBenefit ''no-resume'') initial_state) \<and>
   distinct (benefits (formValues
     (step (None :: unit option) (ClickBenefit ''no-resume'') initial_state)))"
proof -
  have r: "reachable (None :: unit option)
      (step (None :: unit option) (ClickBenefit ''no-resume'') initial_state)"
    by (rule reachable.after [OF reachable.mount])
  from benefits_set_semantics [of "''no-resume''" "[''students-ok'']" "None :: unit option"
      "step (None :: unit option) (ClickBenefit ''no-resume'') initial_state"]
    benefits_set_semantics [of "''students-ok''" "[''students-ok'']" "None :: unit option"
      initial_state]
    r
  show ?thesis by auto
qed

section \<open>Hiding the age range keeps its values\<close>

text \<open>
  Claim C9. Choosing an age requirement changes neither \<open>ageFrom\<close> nor \<open>ageTo\<close>,
  whatever is chosen; choosing "any" hides the age range, and choosing "any" and then
  "custom" leaves a form that was on "custom" with its age range shown exactly as it was.
\<close>

theorem age_values_survive_hiding:
  "ageFrom (formValues (step cb (ChooseAgeRequirement v) s)) = ageFrom (formValues s) \<and>
   ageTo (formValues (step cb (ChooseAgeRequirement v) s)) = ageTo (formValues s) \<and>
   \<not> showCustomAge (step cb (ChooseAgeRequirement Any) s) \<and>
   run cb [ChooseAgeRequirement Any, ChooseAgeRequirement Custom] s =
     s\<lparr> formValues := (formValues s)\<lparr>ageRequirement := Custom\<rparr>, showCustomAge := True \<rparr> \<and>
   (ageRequirement (formValues s) = Custom \<and> showCustomAge s \<longrightarrow>
      run cb [ChooseAgeRequirement Any, ChooseAgeRequirement Custom] s = s)"
  by (simp add: ageRequirement_onValueChange_def)

theorem age_values_survive_hiding_witness:
  "ageRequirement (formValues (run (None :: unit option)
      [ChooseAgeRequirement Custom, ChangeAgeFrom (Some 20), ChangeAgeTo (Some 30)] initial_state))
     = Custom \<and>
   showCustomAge (run (None :: unit option)
      [ChooseAgeRequirement Custom, ChangeAgeFrom (Some 20), ChangeAgeTo (Some 30)] initial_state) \<and>
   ageFrom (formValues (run (None :: unit option)
      [ChooseAgeRequirement Custom, ChangeAgeFrom (Some 20), ChangeAgeTo (Some 30),
       ChooseAgeRequirement Any, ChooseAgeRequirement Custom] initial_state)) = Some 20 \<and>
   ageTo (formValues (run (None :: unit option)
      [ChooseAgeRequirement Custom, ChangeAgeFrom (Some 20), ChangeAgeTo (Some 30),
       ChooseAgeRequirement Any, ChooseAgeRequirement Custom] initial_state)) = Some 30"
  using age_values_survive_hiding [of "None :: unit option" Any
      "run (None :: unit option)
        [ChooseAgeRequirement Custom, ChangeAgeFrom (Some 20), ChangeAgeTo (Some 30)] initial_state"]
  by (simp add: ageRequirement_onValueChange_def ageFrom_onChange_def ageTo_onChange_def
      or_undefined_def initial_state_def defaultValues_def)

section \<open>The Viber number in validation\<close>

text \<open>
  Claim C10. The schema accepts a Viber number exactly when it is \<open>09\<close> followed by 7 to
  9 digits and nothing else, hence 9 to 11 characters long; \<open>0912345678\<close> and
  \<open>091234567\<close> are accepted, \<open>09123456\<close> and \<open>08123456789\<close> are not.
\<close>

theorem viberNumber_validation:
  "(snd (z_string_regex viber_regex msg ''viberNumber'' s) = []) = spec_viber_ok s \<and>
   (''viberNumber'' \<in> fst ` set (formSchema d)) = (\<not> spec_viber_ok (viberNumber d)) \<and>
   (spec_viber_ok s \<longrightarrow> 9 \<le> length s \<and> length s \<le> 11) \<and>
   rx_test viber_regex ''0912345678'' \<and> rx_test viber_regex ''091234567'' \<and>
   \<not> rx_test viber_regex ''09123456'' \<and> \<not> rx_test viber_regex ''08123456789''"
proof -
  have a: "(snd (z_string_regex viber_regex msg ''viberNumber'' s) = []) = spec_viber_ok s"
    by (simp add: z_string_regex_def viber_regex_spec)
  have b: "(''viberNumber'' \<in> fst ` set (formSchema d)) = (\<not> spec_viber_ok (viberNumber d))"
    unfolding formSchema_paths object_parse_paths
    by (simp only: Un_iff mem_if1 mem_if2) simp
  have c: "spec_viber_ok s \<longrightarrow> 9 \<le> length s \<and> length s \<le> 11"
    by (auto simp add: spec_viber_ok_def)
  have e: "rx_test viber_regex ''0912345678''" "rx_test viber_regex ''091234567''"
    "\<not> rx_test viber_regex ''09123456''" "\<not> rx_test viber_regex ''08123456789''"
    by (simp_all add: viber_regex_def is_digit_def)
  from a b c e show ?thesis by blast
qed

theorem viberNumber_validation_witness:
  "spec_viber_ok ''09123456789'' \<and> length ''09123456789'' = 11 \<and>
   snd (z_string_regex viber_regex ''no'' ''viberNumber'' ''09123456789'') = [] \<and>
   ''viberNumber'' \<notin> fst ` set (formSchema sample_draft)"
  using viberNumber_validation [of "''no''" "''09123456789''" sample_draft]
  by (simp add: spec_viber_ok_def is_digit_def sample_draft_def)

end
